theory Spec2Isabelle
  imports Main
begin

section \<open>JavaScript values used by the appointment routes\<close>

text \<open>
  Timestamps are the millisecond values of JavaScript \<open>Date\<close> objects (\<open>getTime()\<close>).
  A number that may be \<open>NaN\<close> (the end of an interval whose duration string does not
  parse, an \<open>Invalid Date\<close>) is an \<open>int option\<close>, \<open>None\<close> standing for \<open>NaN\<close>: every
  comparison with \<open>NaN\<close> is false. Strings are ASCII. Numbers stay inside the range
  where JavaScript doubles are exact integers.
\<close>

type_synonym jsnum = "int option"

definition jsLt :: "jsnum \<Rightarrow> jsnum \<Rightarrow> bool" where
  "jsLt a b = (case a of None \<Rightarrow> False | Some x \<Rightarrow> (case b of None \<Rightarrow> False | Some y \<Rightarrow> x < y))"

definition jsLe :: "jsnum \<Rightarrow> jsnum \<Rightarrow> bool" where
  "jsLe a b = (case a of None \<Rightarrow> False | Some x \<Rightarrow> (case b of None \<Rightarrow> False | Some y \<Rightarrow> x \<le> y))"

definition jsGt :: "jsnum \<Rightarrow> jsnum \<Rightarrow> bool" where
  "jsGt a b = jsLt b a"

definition jsGe :: "jsnum \<Rightarrow> jsnum \<Rightarrow> bool" where
  "jsGe a b = jsLe b a"

text \<open>\<open>s.split(' ')[0]\<close>: the text before the first space (all of \<open>s\<close> without one).\<close>

definition firstToken :: "string \<Rightarrow> string" where
  "firstToken s = takeWhile (\<lambda>c. c \<noteq> CHR '' '') s"

text \<open>
  \<open>parseInt(s)\<close> with no radix: leading white space is skipped, one sign is read, a
  \<open>0x\<close>/\<open>0X\<close> prefix selects radix 16, the longest run of digits is the value, and no
  digit at all gives \<open>NaN\<close>.
\<close>

definition isWhiteSpace :: "char \<Rightarrow> bool" where
  "isWhiteSpace c = (c \<in> set [CHR 0x09, CHR 0x0A, CHR 0x0B, CHR 0x0C, CHR 0x0D, CHR '' ''])"

definition digitValue :: "char \<Rightarrow> nat option" where
  "digitValue c =
     (let n = (of_char c :: nat) in
      if 48 \<le> n \<and> n \<le> 57 then Some (n - 48)
      else if 97 \<le> n \<and> n \<le> 102 then Some (n - 87)
      else if 65 \<le> n \<and> n \<le> 70 then Some (n - 55)
      else None)"

definition isRadixDigit :: "nat \<Rightarrow> char \<Rightarrow> bool" where
  "isRadixDigit R c = (case digitValue c of None \<Rightarrow> False | Some v \<Rightarrow> v < R)"

definition mathInt :: "nat \<Rightarrow> string \<Rightarrow> int" where
  "mathInt R Z =
     foldl (\<lambda>acc c. case digitValue c of None \<Rightarrow> acc | Some v \<Rightarrow> acc * int R + int v) 0 Z"

definition parseInt :: "string \<Rightarrow> jsnum" where
  "parseInt inputString =
     (let S = dropWhile isWhiteSpace inputString;
          sign = (if take 1 S = ''-'' then - 1 else 1);
          S1 = (if take 1 S = ''+'' \<or> take 1 S = ''-'' then drop 1 S else S);
          hex = (take 2 S1 = ''0x'' \<or> take 2 S1 = ''0X'');
          R = (if hex then 16 else 10);
          S2 = (if hex then drop 2 S1 else S1);
          Z = takeWhile (isRadixDigit R) S2
      in if Z = [] then None else Some (sign * mathInt R Z))"

text \<open>\<open>new Date(d.getTime() + minutes * 60000)\<close>, \<open>Invalid Date\<close> when \<open>minutes\<close> is \<open>NaN\<close>.\<close>

definition addMinutes :: "int \<Rightarrow> jsnum \<Rightarrow> jsnum" where
  "addMinutes t minutes = (case minutes of None \<Rightarrow> None | Some m \<Rightarrow> Some (t + m * 60000))"

section \<open>Data model\<close>

text \<open>
  An appointment row as the routes read it. \<open>date\<close> is the start timestamp, \<open>duration\<close>
  the stored text such as \<open>30 minutes\<close>, \<open>status\<close> and \<open>type\<close> the stored names.
\<close>

record appointment =
  id' :: string
  patientId :: string
  providerId :: string
  locationId :: string
  date :: int
  duration :: string
  type' :: string
  status :: string
  notes' :: string

text \<open>The values the Joi schemas admit.\<close>

definition validDurations :: "string list" where
  "validDurations = [''15 minutes'', ''30 minutes'', ''45 minutes'', ''60 minutes'', ''90 minutes'']"

definition validTypes :: "string list" where
  "validTypes = [''TELEHEALTH'', ''IN_PERSON'']"

definition validStatuses :: "string list" where
  "validStatuses = [''PENDING'', ''CONFIRMED'', ''CANCELLED'', ''COMPLETED'', ''NO_SHOW'']"

section \<open>The conflict test\<close>

text \<open>
  The \<open>return\<close> expression shared by the slot check, the create route and the update
  route: candidate \<open>[candStart, candEnd)\<close> against an appointment \<open>[aptStart, aptEnd)\<close>.
\<close>

definition threeClause :: "int \<Rightarrow> jsnum \<Rightarrow> int \<Rightarrow> jsnum \<Rightarrow> bool" where
  "threeClause candStart candEnd aptStart aptEnd =
     ((jsGe (Some candStart) (Some aptStart) \<and> jsLt (Some candStart) aptEnd) \<or>
      (jsGt candEnd (Some aptStart) \<and> jsLe candEnd aptEnd) \<or>
      (jsLe (Some candStart) (Some aptStart) \<and> jsGe candEnd aptEnd))"

text \<open>
  \<open>aptDuration = parseInt(apt.duration.split(' ')[0])\<close> and
  \<open>aptEnd = new Date(aptStart.getTime() + aptDuration * 60000)\<close>.
\<close>

definition aptDuration :: "appointment \<Rightarrow> jsnum" where
  "aptDuration apt = parseInt (firstToken (duration apt))"

definition aptEnd :: "appointment \<Rightarrow> jsnum" where
  "aptEnd apt = addMinutes (date apt) (aptDuration apt)"

text \<open>The callback given to \<open>some\<close> and \<open>filter\<close>.\<close>

definition conflictsWith :: "int \<Rightarrow> jsnum \<Rightarrow> appointment \<Rightarrow> bool" where
  "conflictsWith candStart candEnd apt = threeClause candStart candEnd (date apt) (aptEnd apt)"

text \<open>
  The single predicate of the specification (section 4.1), on half-open intervals
  \<open>[s1, e1)\<close> and \<open>[s2, e2)\<close>; it is written from the specification's words, to be
  compared with \<open>threeClause\<close>.
\<close>

definition overlap :: "int \<Rightarrow> int \<Rightarrow> int \<Rightarrow> int \<Rightarrow> bool" where
  "overlap s1 e1 s2 e2 = (s1 < e2 \<and> s2 < e1)"

text \<open>An appointment's interval against \<open>[s, e)\<close> by the specification's predicate.\<close>

definition overlapsAppointment :: "int \<Rightarrow> int \<Rightarrow> appointment \<Rightarrow> bool" where
  "overlapsAppointment s e apt =
     (case aptEnd apt of None \<Rightarrow> False | Some ae \<Rightarrow> overlap s e (date apt) ae)"

section \<open>Requests, replies and the store\<close>

text \<open>
  A JSON body of the create and update routes: an absent key is \<open>None\<close>. The \<open>date\<close>
  key is absent, not an ISO date, or an ISO date that Joi converts to a \<open>Date\<close>.
\<close>

datatype dateField = NoDate | BadDate | IsoDate int

record body =
  b_patientId :: "string option"
  b_providerId :: "string option"
  b_locationId :: "string option"
  b_date :: dateField
  b_duration :: "string option"
  b_type :: "string option"
  b_status :: "string option"
  b_notes :: "string option"

text \<open>
  Joi: \<open>string().required()\<close> and \<open>string().optional()\<close> refuse the empty string,
  \<open>valid(...)\<close> admits the listed values only; \<open>notes\<close> allows any string.
\<close>

definition requiredString :: "string option \<Rightarrow> bool" where
  "requiredString v = (case v of None \<Rightarrow> False | Some s \<Rightarrow> s \<noteq> [])"

definition optionalString :: "string option \<Rightarrow> bool" where
  "optionalString v = (case v of None \<Rightarrow> True | Some s \<Rightarrow> s \<noteq> [])"

definition requiredOneOf :: "string list \<Rightarrow> string option \<Rightarrow> bool" where
  "requiredOneOf vs v = (case v of None \<Rightarrow> False | Some s \<Rightarrow> s \<in> set vs)"

definition optionalOneOf :: "string list \<Rightarrow> string option \<Rightarrow> bool" where
  "optionalOneOf vs v = (case v of None \<Rightarrow> True | Some s \<Rightarrow> s \<in> set vs)"

definition appointmentSchema :: "body \<Rightarrow> bool" where
  "appointmentSchema b =
     (requiredString (b_patientId b) \<and>
      requiredString (b_providerId b) \<and>
      requiredString (b_locationId b) \<and>
      (case b_date b of IsoDate d \<Rightarrow> True | _ \<Rightarrow> False) \<and>
      requiredOneOf validDurations (b_duration b) \<and>
      requiredOneOf validTypes (b_type b) \<and>
      optionalOneOf validStatuses (b_status b))"

definition updateAppointmentSchema :: "body \<Rightarrow> bool" where
  "updateAppointmentSchema b =
     (optionalString (b_patientId b) \<and>
      optionalString (b_providerId b) \<and>
      optionalString (b_locationId b) \<and>
      (case b_date b of BadDate \<Rightarrow> False | _ \<Rightarrow> True) \<and>
      optionalOneOf validDurations (b_duration b) \<and>
      optionalOneOf validTypes (b_type b) \<and>
      optionalOneOf validStatuses (b_status b))"

definition statusUpdateSchema :: "string option \<Rightarrow> bool" where
  "statusUpdateSchema st = requiredOneOf validStatuses st"

text \<open>JavaScript truthiness of an optional string, and \<open>a || b\<close> on strings.\<close>

definition truthy :: "string option \<Rightarrow> bool" where
  "truthy v = (case v of None \<Rightarrow> False | Some s \<Rightarrow> s \<noteq> [])"

definition jsOr :: "string option \<Rightarrow> string \<Rightarrow> string" where
  "jsOr v d = (case v of None \<Rightarrow> d | Some s \<Rightarrow> if s = [] then d else s)"

text \<open>The error replies of the routes: 400, 404, 409 (with its optional \<open>conflicts\<close> key), 500.\<close>

datatype httpError =
    BadRequest string
  | NotFound string
  | Conflict string "appointment list option"
  | ServerError string

text \<open>
  What a route leaves behind besides the appointment table: audit entries (action,
  resource, resourceId) and socket events (room, event name).
\<close>

datatype effect =
    AuditLog string string "string option"
  | Emit "string option" string

record world =
  appointments :: "appointment list"
  effects :: "effect list"

text \<open>
  Local wall-clock time is taken as UTC: \<open>setHours(0, 0, 0, 0)\<close>,
  \<open>setHours(23, 59, 59, 999)\<close>, \<open>getHours()\<close> and \<open>getMinutes()\<close>.
\<close>

definition startOfDay :: "int \<Rightarrow> int" where
  "startOfDay t = t - t mod 86400000"

definition endOfDay :: "int \<Rightarrow> int" where
  "endOfDay t = startOfDay t + 86399999"

definition getHours :: "int \<Rightarrow> int" where
  "getHours t = (t div 3600000) mod 24"

definition getMinutes :: "int \<Rightarrow> int" where
  "getMinutes t = (t div 60000) mod 60"

section \<open>GET /api/appointments/availability\<close>

record availabilityQuery =
  q_providerId :: "string option"
  q_locationId :: "string option"
  q_date :: "string option"
  q_duration :: "string option"

record slot =
  slotStart :: int
  slotEnd :: int

record availabilityData =
  r_availableSlots :: "slot list"
  r_existingAppointments :: nat
  r_totalSlots :: nat

text \<open>
  \<open>prisma.appointment.findMany\<close> for the provider on the selected day, cancelled rows
  left out, the location filter applied only for a truthy \<open>locationId\<close>, ordered by date.
\<close>

definition findExisting :: "appointment list \<Rightarrow> string \<Rightarrow> string option \<Rightarrow> int \<Rightarrow> appointment list" where
  "findExisting store pid loc selectedDate =
     sort_key date
       (filter (\<lambda>apt. providerId apt = pid \<and>
                      (truthy loc \<longrightarrow> Some (locationId apt) = loc) \<and>
                      startOfDay selectedDate \<le> date apt \<and> date apt \<le> endOfDay selectedDate \<and>
                      status apt \<noteq> ''CANCELLED'') store)"

text \<open>
  The \<open>while (current < end)\<close> loop of one time range. \<open>rangeEnd\<close> is the range's \<open>end\<close>
  timestamp, \<open>availableSlots\<close> the array the loop pushes to.
\<close>

function slotLoop :: "appointment list \<Rightarrow> jsnum \<Rightarrow> jsnum \<Rightarrow> int \<Rightarrow> slot list \<Rightarrow> slot list" where
  "slotLoop existing durationMinutes rangeEnd current availableSlots =
     (if jsLt (Some current) rangeEnd then
        slotLoop existing durationMinutes rangeEnd (current + 15 * 60000)
          (case addMinutes current durationMinutes of
             None \<Rightarrow> availableSlots
           | Some se \<Rightarrow>
               if jsLe (Some se) rangeEnd then
                 (if \<not> list_ex (conflictsWith current (Some se)) existing
                  then availableSlots @ [\<lparr>slotStart = current, slotEnd = se\<rparr>]
                  else availableSlots)
               else availableSlots)
      else availableSlots)"
  by pat_completeness auto
termination
  by (relation "measure (\<lambda>(ex, dm, rangeEnd, current, acc).
        case rangeEnd of None \<Rightarrow> 0 | Some e \<Rightarrow> nat (e - current))")
     (auto simp: jsLt_def split: option.splits)

declare slotLoop.simps [simp del]

text \<open>
  One \<open>forEach\<close> step. Parsing a range string with \<open>new Date\<close> belongs to the runtime:
  a range arrives as the timestamps of its \<open>start\<close> and \<open>end\<close>, \<open>None\<close> for an
  \<open>Invalid Date\<close>, on which \<open>current < end\<close> is false at once.
\<close>

definition rangeSlots :: "appointment list \<Rightarrow> jsnum \<Rightarrow> slot list \<Rightarrow> (jsnum \<times> jsnum) \<Rightarrow> slot list" where
  "rangeSlots existing durationMinutes availableSlots timeRange =
     (case fst timeRange of
        None \<Rightarrow> availableSlots
      | Some start \<Rightarrow> slotLoop existing durationMinutes (snd timeRange) start availableSlots)"

definition generateSlots :: "appointment list \<Rightarrow> jsnum \<Rightarrow> (jsnum \<times> jsnum) list \<Rightarrow> slot list" where
  "generateSlots existing durationMinutes dayAvailability =
     foldl (rangeSlots existing durationMinutes) [] dayAvailability"

text \<open>
  \<open>d.toLocaleDateString('en-US', { weekday: style })\<close>. The \<open>weekday\<close> option admits
  \<open>narrow\<close>, \<open>short\<close> and \<open>long\<close>; with any other value the call throws a
  \<open>RangeError\<close>, which is \<open>None\<close> here. Day 0 is Sunday; 1970-01-01 was a Thursday.
\<close>

definition weekdayIndex :: "int \<Rightarrow> nat" where
  "weekdayIndex t = nat ((t div 86400000 + 4) mod 7)"

definition weekdayName :: "string \<Rightarrow> int \<Rightarrow> string option" where
  "weekdayName style t =
     (if style = ''long''
      then Some ([''Sunday'', ''Monday'', ''Tuesday'', ''Wednesday'', ''Thursday'', ''Friday'',
                  ''Saturday''] ! weekdayIndex t)
      else if style = ''short''
      then Some ([''Sun'', ''Mon'', ''Tue'', ''Wed'', ''Thu'', ''Fri'', ''Sat''] ! weekdayIndex t)
      else if style = ''narrow''
      then Some ([''S'', ''M'', ''T'', ''W'', ''T'', ''F'', ''S''] ! weekdayIndex t)
      else None)"

text \<open>
  The route. \<open>selectedDate\<close> is \<open>new Date(date)\<close>, which the two \<open>setHours\<close> calls
  leave at the end of the day; \<open>provider\<close> is the row found for \<open>providerId\<close>, given as
  its \<open>availability\<close> object: for a weekday key, the ranges of that key with their times
  parsed on the requested date. Prisma refuses an \<open>Invalid Date\<close> in a filter. Every
  throw inside the \<open>try\<close> block is answered by the \<open>catch\<close> block with status 500; the
  call \<open>toLocaleDateString('en-US', { weekday: 'lowercase' })\<close> is such a throw.
\<close>

definition availability ::
  "appointment list \<Rightarrow> availabilityQuery \<Rightarrow> jsnum \<Rightarrow>
   (string \<rightharpoonup> (jsnum \<times> jsnum) list) option \<Rightarrow> httpError + availabilityData" where
  "availability store q selectedDate provider =
     (if \<not> truthy (q_providerId q) \<or> \<not> truthy (q_date q)
      then Inl (BadRequest ''Provider ID and date are required'')
      else case selectedDate of
        None \<Rightarrow> Inl (ServerError ''Failed to check availability'')
      | Some sd \<Rightarrow>
          let existing = findExisting store (jsOr (q_providerId q) []) (q_locationId q) sd in
          case provider of
            None \<Rightarrow> Inl (NotFound ''Provider not found'')
          | Some providerAvailability \<Rightarrow>
              (case weekdayName ''lowercase'' (endOfDay sd) of
                 None \<Rightarrow> Inl (ServerError ''Failed to check availability'')
               | Some dayOfWeek \<Rightarrow>
                   let dayAvailability =
                         (case providerAvailability dayOfWeek of None \<Rightarrow> [] | Some rs \<Rightarrow> rs);
                       durationMinutes =
                         parseInt (firstToken (case q_duration q of None \<Rightarrow> ''30 minutes'' | Some d \<Rightarrow> d));
                       slots = generateSlots existing durationMinutes dayAvailability
                   in Inr \<lparr>r_availableSlots = slots,
                           r_existingAppointments = length existing,
                           r_totalSlots = length slots\<rparr>))"

section \<open>POST /api/appointments\<close>

text \<open>
  The windowed query: the provider's rows that are not cancelled and start within 24
  hours of the requested start.
\<close>

definition findWindow :: "appointment list \<Rightarrow> string \<Rightarrow> int \<Rightarrow> appointment list" where
  "findWindow store pid appointmentDate =
     filter (\<lambda>apt. providerId apt = pid \<and>
                    status apt \<noteq> ''CANCELLED'' \<and>
                    appointmentDate - 24 * 60 * 60 * 1000 \<le> date apt \<and>
                    date apt \<le> appointmentDate + 24 * 60 * 60 * 1000) store"

text \<open>The \<open>Date\<close> of a validated body.\<close>

definition bodyDate :: "body \<Rightarrow> int \<Rightarrow> int" where
  "bodyDate b d = (case b_date b of IsoDate t \<Rightarrow> t | _ \<Rightarrow> d)"

text \<open>
  \<open>prisma.appointment.create({ data: value })\<close>: the row gets the identifier the
  database generates, given here as \<open>newId\<close>. The patient, provider and location the
  body names are taken to exist, so that the write succeeds.
  Modelled from the spec: the column defaults of the Prisma schema, which is not among
  the sources; the status defaults to PENDING (specification, section 3), absent notes
  are empty.
\<close>

definition newRow :: "string \<Rightarrow> body \<Rightarrow> appointment" where
  "newRow newId v =
     \<lparr>id' = newId,
      patientId = jsOr (b_patientId v) [],
      providerId = jsOr (b_providerId v) [],
      locationId = jsOr (b_locationId v) [],
      date = bodyDate v 0,
      duration = jsOr (b_duration v) [],
      type' = jsOr (b_type v) [],
      status = jsOr (b_status v) ''PENDING'',
      notes' = (case b_notes v of None \<Rightarrow> [] | Some n \<Rightarrow> n)\<rparr>"

definition createAppointment :: "world \<Rightarrow> string \<Rightarrow> body \<Rightarrow> (httpError + appointment) \<times> world" where
  "createAppointment w newId b =
     (if \<not> appointmentSchema b then (Inl (BadRequest ''Validation error''), w)
      else
        let appointmentDate = bodyDate b 0;
            durationMinutes = parseInt (firstToken (jsOr (b_duration b) []));
            appointmentEnd = addMinutes appointmentDate durationMinutes;
            conflicts = findWindow (appointments w) (jsOr (b_providerId b) []) appointmentDate;
            hasConflict = list_ex (conflictsWith appointmentDate appointmentEnd) conflicts
        in if hasConflict
           then (Inl (Conflict ''Time slot conflict detected''
                        (Some (filter (conflictsWith appointmentDate appointmentEnd) conflicts))), w)
           else
             let appointment = newRow newId b
             in (Inr appointment,
                 w\<lparr>appointments := appointments w @ [appointment],
                   effects := effects w @
                     [AuditLog ''CREATE'' ''appointment'' (Some (id' appointment)),
                      Emit (Some (''provider-'' @ jsOr (b_providerId b) [])) ''appointment-created'']\<rparr>))"

section \<open>PUT /api/appointments/:id\<close>

text \<open>\<open>prisma.appointment.update({ where: { id }, data: value })\<close> on one row.\<close>

definition applyChanges :: "body \<Rightarrow> appointment \<Rightarrow> appointment" where
  "applyChanges v apt =
     apt\<lparr>patientId := (case b_patientId v of None \<Rightarrow> patientId apt | Some x \<Rightarrow> x),
         providerId := (case b_providerId v of None \<Rightarrow> providerId apt | Some x \<Rightarrow> x),
         locationId := (case b_locationId v of None \<Rightarrow> locationId apt | Some x \<Rightarrow> x),
         date := bodyDate v (date apt),
         duration := (case b_duration v of None \<Rightarrow> duration apt | Some x \<Rightarrow> x),
         type' := (case b_type v of None \<Rightarrow> type' apt | Some x \<Rightarrow> x),
         status := (case b_status v of None \<Rightarrow> status apt | Some x \<Rightarrow> x),
         notes' := (case b_notes v of None \<Rightarrow> notes' apt | Some x \<Rightarrow> x)\<rparr>"

text \<open>The windowed query of the update route, with \<open>id: { not: id }\<close>.\<close>

definition findWindowExcept :: "appointment list \<Rightarrow> string \<Rightarrow> string \<Rightarrow> int \<Rightarrow> appointment list" where
  "findWindowExcept store ident pid appointmentDate =
     filter (\<lambda>apt. id' apt \<noteq> ident \<and>
                    providerId apt = pid \<and>
                    status apt \<noteq> ''CANCELLED'' \<and>
                    appointmentDate - 24 * 60 * 60 * 1000 \<le> date apt \<and>
                    date apt \<le> appointmentDate + 24 * 60 * 60 * 1000) store"

text \<open>The tail of the route after the conflict check: update, audit entry, socket event.\<close>

definition persistUpdate :: "world \<Rightarrow> string \<Rightarrow> body \<Rightarrow> appointment \<Rightarrow> (httpError + appointment) \<times> world" where
  "persistUpdate w ident v existingAppointment =
     (let appointment = applyChanges v existingAppointment
      in (Inr appointment,
          w\<lparr>appointments := map (\<lambda>apt. if id' apt = ident then applyChanges v apt else apt) (appointments w),
            effects := effects w @
              [AuditLog ''UPDATE'' ''appointment'' (Some (id' appointment)),
               Emit (Some (''provider-'' @ providerId appointment)) ''appointment-updated'']\<rparr>))"

definition updateAppointment :: "world \<Rightarrow> string \<Rightarrow> body \<Rightarrow> (httpError + appointment) \<times> world" where
  "updateAppointment w ident b =
     (if \<not> updateAppointmentSchema b then (Inl (BadRequest ''Validation error''), w)
      else case find (\<lambda>apt. id' apt = ident) (appointments w) of
        None \<Rightarrow> (Inl (NotFound ''Appointment not found''), w)
      | Some existingAppointment \<Rightarrow>
          if b_date b \<noteq> NoDate \<or> truthy (b_duration b) then
            let appointmentDate = bodyDate b (date existingAppointment);
                duration = jsOr (b_duration b) (duration existingAppointment);
                durationMinutes = parseInt (firstToken duration);
                appointmentEnd = addMinutes appointmentDate durationMinutes;
                conflicts = findWindowExcept (appointments w) ident
                              (jsOr (b_providerId b) (providerId existingAppointment)) appointmentDate;
                hasConflict = list_ex (conflictsWith appointmentDate appointmentEnd) conflicts
            in if hasConflict
               then (Inl (Conflict ''Time slot conflict detected'' None), w)
               else persistUpdate w ident b existingAppointment
          else persistUpdate w ident b existingAppointment)"

section \<open>PATCH /api/appointments/:id/status\<close>

text \<open>
  The route validates the body and overwrites the status. \<open>prisma.appointment.update\<close>
  throws when no row has the identifier, which the \<open>catch\<close> block reports as 500.
\<close>

definition updateStatus :: "world \<Rightarrow> string \<Rightarrow> string option \<Rightarrow> (httpError + appointment) \<times> world" where
  "updateStatus w ident st =
     (if \<not> statusUpdateSchema st then (Inl (BadRequest ''Validation error''), w)
      else case find (\<lambda>apt. id' apt = ident) (appointments w) of
        None \<Rightarrow> (Inl (ServerError ''Failed to update appointment status''), w)
      | Some row \<Rightarrow>
          let appointment = row\<lparr>status := jsOr st []\<rparr>
          in (Inr appointment,
              w\<lparr>appointments := map (\<lambda>apt. if id' apt = ident then apt\<lparr>status := jsOr st []\<rparr> else apt)
                                     (appointments w),
                effects := effects w @
                  [AuditLog ''STATUS_UPDATE'' ''appointment'' (Some (id' appointment)),
                   Emit (Some (''provider-'' @ providerId appointment)) ''appointment-status-updated'']\<rparr>))"

section \<open>POST /api/appointments/bulk\<close>

text \<open>
  The body: \<open>appointmentIds\<close> is \<open>None\<close> when the key is absent or not an array,
  \<open>bulk_status\<close> is \<open>data?.status\<close>.
\<close>

record bulkBody =
  bulk_action :: "string option"
  bulk_appointmentIds :: "string list option"
  bulk_status :: "string option"

text \<open>
  \<open>deleteMany\<close> and \<open>updateMany\<close> with \<open>where: { id: { in: appointmentIds } }\<close>: the new
  table and \<open>result.count\<close>, the number of rows matched.
\<close>

definition deleteMany :: "appointment list \<Rightarrow> string list \<Rightarrow> appointment list \<times> nat" where
  "deleteMany store ids =
     (filter (\<lambda>apt. id' apt \<notin> set ids) store,
      length (filter (\<lambda>apt. id' apt \<in> set ids) store))"

definition updateMany :: "appointment list \<Rightarrow> string list \<Rightarrow> string \<Rightarrow> appointment list \<times> nat" where
  "updateMany store ids st =
     (map (\<lambda>apt. if id' apt \<in> set ids then apt\<lparr>status := st\<rparr> else apt) store,
      length (filter (\<lambda>apt. id' apt \<in> set ids) store))"

text \<open>The audit entry and the broadcast after either action.\<close>

definition bulkEffects :: "string \<Rightarrow> effect list" where
  "bulkEffects auditAction =
     [AuditLog auditAction ''appointment'' None, Emit None ''appointments-bulk-updated'']"

definition bulk :: "world \<Rightarrow> bulkBody \<Rightarrow> (httpError + nat) \<times> world" where
  "bulk w b =
     (case bulk_appointmentIds b of
        None \<Rightarrow> (Inl (BadRequest ''Action and appointment IDs array are required''), w)
      | Some appointmentIds \<Rightarrow>
          if \<not> truthy (bulk_action b)
          then (Inl (BadRequest ''Action and appointment IDs array are required''), w)
          else if bulk_action b = Some ''delete'' then
            (let result = deleteMany (appointments w) appointmentIds
             in (Inr (snd result),
                 w\<lparr>appointments := fst result,
                   effects := effects w @ bulkEffects ''BULK_DELETE''\<rparr>))
          else if bulk_action b = Some ''update-status'' then
            (if \<not> truthy (bulk_status b)
             then (Inl (BadRequest ''Status is required for bulk status update''), w)
             else
               let result = updateMany (appointments w) appointmentIds (jsOr (bulk_status b) [])
               in (Inr (snd result),
                   w\<lparr>appointments := fst result,
                     effects := effects w @ bulkEffects ''BULK_UPDATE-STATUS''\<rparr>))
          else (Inl (BadRequest ''Invalid bulk action''), w))"

section \<open>GET /api/appointments/conflicts\<close>

record conflictEntry =
  appointment1 :: appointment
  appointment2 :: appointment
  overlapMinutes :: int

record conflictReport =
  r_totalAppointments :: nat
  r_conflicts :: "conflictEntry list"
  r_conflictCount :: nat

text \<open>
  The query: the provider's rows that are not cancelled, inside the date range when
  both \<open>startDate\<close> and \<open>endDate\<close> are given, ordered by date.
\<close>

definition findForReport :: "appointment list \<Rightarrow> string \<Rightarrow> (int \<times> int) option \<Rightarrow> appointment list" where
  "findForReport store pid dateRange =
     sort_key date
       (filter (\<lambda>apt. providerId apt = pid \<and>
                      status apt \<noteq> ''CANCELLED'' \<and>
                      (case dateRange of None \<Rightarrow> True
                       | Some r \<Rightarrow> fst r \<le> date apt \<and> date apt \<le> snd r)) store)"

text \<open>
  One pass of the \<open>for\<close> loop at index \<open>i\<close>: what it pushes.
  \<open>Math.round\<close> of a positive quotient by 60000 rounds halves up.
\<close>

definition conflictAt :: "appointment list \<Rightarrow> nat \<Rightarrow> conflictEntry list" where
  "conflictAt apts i =
     (let current = apts ! i;
          next = apts ! (i + 1);
          currentEnd = aptEnd current;
          nextStart = date next
      in if jsGt currentEnd (Some nextStart)
         then (case currentEnd of
                 None \<Rightarrow> []
               | Some ce \<Rightarrow> [\<lparr>appointment1 = current, appointment2 = next,
                               overlapMinutes = (ce - nextStart + 30000) div 60000\<rparr>])
         else [])"

text \<open>The loop \<open>for (i = 0; i < appointments.length - 1; i++)\<close>.\<close>

definition findConflicts :: "appointment list \<Rightarrow> conflictEntry list" where
  "findConflicts apts = concat (map (conflictAt apts) [0 ..< length apts - 1])"

text \<open>The reply built from the rows found.\<close>

definition reportOf :: "appointment list \<Rightarrow> conflictReport" where
  "reportOf apts =
     (let conflicts = findConflicts apts
      in \<lparr>r_totalAppointments = length apts,
          r_conflicts = conflicts,
          r_conflictCount = length conflicts\<rparr>)"

text \<open>
  The route; \<open>dateRange\<close> holds \<open>new Date(startDate)\<close> and \<open>new Date(endDate)\<close> when
  both query parameters are truthy. Prisma refuses an \<open>Invalid Date\<close>.
\<close>

definition conflictsRoute ::
  "appointment list \<Rightarrow> string option \<Rightarrow> (jsnum \<times> jsnum) option \<Rightarrow> httpError + conflictReport" where
  "conflictsRoute store providerIdParam dateRange =
     (if \<not> truthy providerIdParam then Inl (BadRequest ''Provider ID is required'')
      else case dateRange of
        None \<Rightarrow> Inr (reportOf (findForReport store (jsOr providerIdParam []) None))
      | Some r \<Rightarrow>
          (case fst r of
             None \<Rightarrow> Inl (ServerError ''Failed to check conflicts'')
           | Some s \<Rightarrow>
               (case snd r of
                  None \<Rightarrow> Inl (ServerError ''Failed to check conflicts'')
                | Some e \<Rightarrow>
                    Inr (reportOf (findForReport store (jsOr providerIdParam []) (Some (s, e)))))))"

section \<open>GET /api/locations/:id/availability\<close>

record location =
  loc_id :: string
  loc_name :: string
  capacity :: int

record hourEntry =
  hourLabel :: int
  currentAppointments :: nat
  availableSlots :: int
  isAvailable :: bool

text \<open>The rows of the location on the selected day that are not cancelled, by date.\<close>

definition findAtLocation :: "appointment list \<Rightarrow> string \<Rightarrow> int \<Rightarrow> appointment list" where
  "findAtLocation store ident selectedDate =
     sort_key date
       (filter (\<lambda>apt. locationId apt = ident \<and>
                      startOfDay selectedDate \<le> date apt \<and> date apt \<le> endOfDay selectedDate \<and>
                      status apt \<noteq> ''CANCELLED'') store)"

text \<open>\<open>hourlyCount[h] = (hourlyCount[h] || 0) + 1\<close> on the object \<open>hourlyCount\<close>.\<close>

definition bumpHour :: "int \<Rightarrow> (int \<rightharpoonup> nat) \<Rightarrow> (int \<rightharpoonup> nat)" where
  "bumpHour h hourlyCount =
     hourlyCount(h \<mapsto> (case hourlyCount h of None \<Rightarrow> 0 | Some c \<Rightarrow> c) + 1)"

text \<open>
  \<open>Math.ceil((minutes + durationMinutes) / 60) + hour\<close>, \<open>NaN\<close> for an unparsable
  duration.
\<close>

definition endHour :: "appointment \<Rightarrow> jsnum" where
  "endHour apt =
     (case aptDuration apt of
        None \<Rightarrow> None
      | Some durationMinutes \<Rightarrow>
          Some (- ((- (getMinutes (date apt) + durationMinutes)) div 60) + getHours (date apt)))"

text \<open>
  The body of \<open>appointments.forEach\<close>: the loop \<open>for (h = hour; h < endHour; h++)\<close>,
  which does not run when \<open>endHour\<close> is \<open>NaN\<close>.
\<close>

definition countAppointment :: "(int \<rightharpoonup> nat) \<Rightarrow> appointment \<Rightarrow> (int \<rightharpoonup> nat)" where
  "countAppointment hourlyCount apt =
     (case endHour apt of
        None \<Rightarrow> hourlyCount
      | Some eh \<Rightarrow> foldl (\<lambda>m h. bumpHour h m) hourlyCount [getHours (date apt) .. eh - 1])"

definition hourlyCountOf :: "appointment list \<Rightarrow> (int \<rightharpoonup> nat)" where
  "hourlyCountOf apts = foldl countAppointment Map.empty apts"

text \<open>
  One entry of \<open>availabilityByHour\<close>. The \<open>utilizationPercentage\<close> key is a rounded
  floating-point quotient and is left out, as is \<open>peakHour\<close>.
\<close>

definition hourEntryOf :: "location \<Rightarrow> (int \<rightharpoonup> nat) \<Rightarrow> int \<Rightarrow> hourEntry" where
  "hourEntryOf loc hourlyCount hour =
     (let currentCount = (case hourlyCount hour of None \<Rightarrow> 0 | Some c \<Rightarrow> c)
      in \<lparr>hourLabel = hour,
          currentAppointments = currentCount,
          availableSlots = max 0 (capacity loc - int currentCount),
          isAvailable = (int currentCount < capacity loc)\<rparr>)"

record locationAvailability =
  r_capacity :: int
  r_locationAppointments :: nat
  r_availabilityByHour :: "hourEntry list"
  r_isFullyBooked :: bool

text \<open>
  The route; \<open>loc\<close> is the row found for the identifier, \<open>selectedDate\<close> is
  \<open>new Date(date)\<close>. The hours reported are 8 to 18.
\<close>

definition locationAvailabilityRoute ::
  "appointment list \<Rightarrow> location option \<Rightarrow> string option \<Rightarrow> jsnum \<Rightarrow> httpError + locationAvailability" where
  "locationAvailabilityRoute store loc dateParam selectedDate =
     (if \<not> truthy dateParam then Inl (BadRequest ''Date is required'')
      else case loc of
        None \<Rightarrow> Inl (NotFound ''Location not found'')
      | Some l \<Rightarrow>
          (case selectedDate of
             None \<Rightarrow> Inl (ServerError ''Failed to check location availability'')
           | Some sd \<Rightarrow>
               let apts = findAtLocation store (loc_id l) sd;
                   hourlyCount = hourlyCountOf apts
               in Inr \<lparr>r_capacity = capacity l,
                       r_locationAppointments = length apts,
                       r_availabilityByHour = map (hourEntryOf l hourlyCount) [8 .. 18],
                       r_isFullyBooked = (int (length apts) \<ge> capacity l * 10)\<rparr>))"

text \<open>
  The occupancy of an hour as the specification words it: the rows of the location
  that are not cancelled, start on the selected day, and whose interval meets the hour
  \<open>[dayStart + h hours, dayStart + (h + 1) hours)\<close>.
\<close>

definition specOccupied :: "appointment list \<Rightarrow> string \<Rightarrow> int \<Rightarrow> int \<Rightarrow> nat" where
  "specOccupied store ident selectedDate h =
     length (filter (\<lambda>apt. locationId apt = ident \<and>
                           status apt \<noteq> ''CANCELLED'' \<and>
                           startOfDay selectedDate \<le> date apt \<and> date apt \<le> endOfDay selectedDate \<and>
                           (case aptEnd apt of
                              None \<Rightarrow> False
                            | Some ae \<Rightarrow>
                                overlap (date apt) ae
                                  (startOfDay selectedDate + h * 3600000)
                                  (startOfDay selectedDate + (h + 1) * 3600000))) store)"

section \<open>Auxiliary predicates and scenario data\<close>

text \<open>
  What the slot loop guarantees of a slot it pushes: its end is its start plus the
  requested duration, and no queried appointment conflicts with it.
\<close>

definition slotOk :: "appointment list \<Rightarrow> jsnum \<Rightarrow> slot \<Rightarrow> bool" where
  "slotOk existing durationMinutes s =
     (addMinutes (slotStart s) durationMinutes = Some (slotEnd s) \<and>
      \<not> list_ex (conflictsWith (slotStart s) (Some (slotEnd s))) existing)"


definition slotQuery :: "string option \<Rightarrow> availabilityQuery" where
  "slotQuery loc =
     \<lparr>q_providerId = Some ''X'', q_locationId = loc, q_date = Some ''2024-01-15'',
      q_duration = Some ''30 minutes''\<rparr>"

definition mondayNineToTwelve :: "string \<rightharpoonup> (jsnum \<times> jsnum) list" where
  "mondayNineToTwelve = [''monday'' \<mapsto> [(Some 1705309200000, Some 1705320000000)]]"


definition slotBooking :: "int \<Rightarrow> body" where
  "slotBooking t =
     \<lparr>b_patientId = Some ''pt2'', b_providerId = Some ''X'', b_locationId = Some ''L1'',
      b_date = IsoDate t, b_duration = Some ''30 minutes'',
      b_type = Some ''IN_PERSON'', b_status = None, b_notes = None\<rparr>"

definition confirmedAt10 :: appointment where
  "confirmedAt10 =
     \<lparr>id' = ''a10'', patientId = ''pt1'', providerId = ''X'', locationId = ''L1'',
      date = 1705312800000, duration = ''30 minutes'', type' = ''IN_PERSON'',
      status = ''CONFIRMED'', notes' = []\<rparr>"

definition twoDaysLater :: appointment where
  "twoDaysLater =
     \<lparr>id' = ''a11'', patientId = ''pt3'', providerId = ''X'', locationId = ''L1'',
      date = 1705485600000, duration = ''90 minutes'', type' = ''TELEHEALTH'',
      status = ''PENDING'', notes' = []\<rparr>"

definition longVisit :: appointment where
  "longVisit =
     \<lparr>id' = ''A'', patientId = ''pt1'', providerId = ''X'', locationId = ''L1'',
      date = 1705312800000, duration = ''90 minutes'', type' = ''IN_PERSON'',
      status = ''CONFIRMED'', notes' = []\<rparr>"

definition shortVisit :: appointment where
  "shortVisit =
     \<lparr>id' = ''B'', patientId = ''pt2'', providerId = ''X'', locationId = ''L1'',
      date = 1705313700000, duration = ''15 minutes'', type' = ''IN_PERSON'',
      status = ''CONFIRMED'', notes' = []\<rparr>"

definition lateVisit :: appointment where
  "lateVisit =
     \<lparr>id' = ''C'', patientId = ''pt3'', providerId = ''X'', locationId = ''L1'',
      date = 1705315500000, duration = ''30 minutes'', type' = ''IN_PERSON'',
      status = ''CONFIRMED'', notes' = []\<rparr>"

definition cancelledApt :: appointment where
  "cancelledApt =
     \<lparr>id' = ''c1'', patientId = ''pt1'', providerId = ''X'', locationId = ''L1'',
      date = 1705312800000, duration = ''30 minutes'', type' = ''IN_PERSON'',
      status = ''CANCELLED'', notes' = []\<rparr>"

definition storedRows :: "appointment list" where
  "storedRows =
     map (\<lambda>i. \<lparr>id' = i, patientId = ''pt1'', providerId = ''X'', locationId = ''L1'',
               date = 1705312800000, duration = ''30 minutes'', type' = ''IN_PERSON'',
               status = ''PENDING'', notes' = []\<rparr>) [''r1'', ''r2'', ''r3'', ''r4'']"

definition bulkDelete :: bulkBody where
  "bulkDelete =
     \<lparr>bulk_action = Some ''delete'',
      bulk_appointmentIds = Some [''r1'', ''gone1'', ''r3'', ''gone2'', ''r4''],
      bulk_status = None\<rparr>"

text \<open>
  The count an hour has in \<open>hourlyCount\<close>, and the hours the loop of one appointment
  runs over.
\<close>

definition countAt :: "(int \<rightharpoonup> nat) \<Rightarrow> int \<Rightarrow> nat" where
  "countAt hourlyCount h = (case hourlyCount h of None \<Rightarrow> 0 | Some c \<Rightarrow> c)"

definition coversHour :: "int \<Rightarrow> appointment \<Rightarrow> bool" where
  "coversHour h apt =
     (case endHour apt of None \<Rightarrow> False | Some eh \<Rightarrow> getHours (date apt) \<le> h \<and> h < eh)"

text \<open>
  A room of capacity 2 and appointments of three providers on 2024-01-15: 14:00 for 30
  minutes, 14:15 for 60 minutes and 14:30 for 15 minutes; and one that starts at
  14:45:30 for 15 minutes.
\<close>

definition roomTwo :: location where
  "roomTwo = \<lparr>loc_id = ''L1'', loc_name = ''Room'', capacity = 2\<rparr>"

definition at14 :: "string \<Rightarrow> int \<Rightarrow> string \<Rightarrow> appointment" where
  "at14 i t d =
     \<lparr>id' = i, patientId = ''pt1'', providerId = i, locationId = ''L1'',
      date = t, duration = d, type' = ''IN_PERSON'', status = ''CONFIRMED'', notes' = []\<rparr>"

definition threeAt14 :: "appointment list" where
  "threeAt14 =
     [at14 ''p1'' 1705327200000 ''30 minutes'',
      at14 ''p2'' 1705328100000 ''60 minutes'',
      at14 ''p3'' 1705329000000 ''15 minutes'']"

definition halfMinuteStart :: appointment where
  "halfMinuteStart = at14 ''p1'' 1705329930000 ''15 minutes''"

definition hourRow :: "int \<Rightarrow> nat \<Rightarrow> int \<Rightarrow> bool \<Rightarrow> hourEntry" where
  "hourRow h c a v = \<lparr>hourLabel = h, currentAppointments = c, availableSlots = a, isAvailable = v\<rparr>"




section \<open>Interval arithmetic\<close>

lemma threeClause_Some:
  "threeClause s1 (Some e1) s2 (Some e2) =
     ((s2 \<le> s1 \<and> s1 < e2) \<or> (s2 < e1 \<and> e1 \<le> e2) \<or> (s1 \<le> s2 \<and> e2 \<le> e1))"
  by (simp add: threeClause_def jsLt_def jsLe_def jsGt_def jsGe_def)

text \<open>
  C1. For non-empty half-open intervals \<open>[s1, e1)\<close> and \<open>[s2, e2)\<close>, the three-clause test
  of the routes holds exactly when the specification's predicate does, that is when
  \<open>s1 < e2\<close> and \<open>s2 < e1\<close>.
\<close>

theorem three_clause_is_overlap:
  assumes "s1 < e1" and "s2 < e2"
  shows "(threeClause s1 (Some e1) s2 (Some e2) \<longleftrightarrow> overlap s1 e1 s2 e2) \<and>
         (overlap s1 e1 s2 e2 \<longleftrightarrow> (s1 < e2 \<and> s2 < e1))"
  using assms unfolding threeClause_Some overlap_def by linarith

theorem three_clause_is_overlap_witness:
  "(600::int) < 630 \<and> (615::int) < 645 \<and>
   threeClause 600 (Some 630) 615 (Some 645) \<and> overlap 600 630 615 645"
  using three_clause_is_overlap [of 600 630 615 645] by (simp add: overlap_def)

lemma threeClause_overlap:
  "s1 < e1 \<Longrightarrow> s2 < e2 \<Longrightarrow> threeClause s1 (Some e1) s2 (Some e2) = overlap s1 e1 s2 e2"
  unfolding threeClause_Some overlap_def by linarith

section \<open>Durations\<close>

lemma parse_valid_durations:
  "parseInt (firstToken ''15 minutes'') = Some 15"
  "parseInt (firstToken ''30 minutes'') = Some 30"
  "parseInt (firstToken ''45 minutes'') = Some 45"
  "parseInt (firstToken ''60 minutes'') = Some 60"
  "parseInt (firstToken ''90 minutes'') = Some 90"
  by code_simp+

lemma valid_duration_minutes:
  assumes "d \<in> set validDurations"
  shows "\<exists>m. parseInt (firstToken d) = Some m \<and> 15 \<le> m \<and> m \<le> 90"
  using assms unfolding validDurations_def
  by (auto simp: parse_valid_durations)

lemma aptEnd_valid:
  assumes "duration apt \<in> set validDurations"
  shows "\<exists>k. aptEnd apt = Some (date apt + k * 60000) \<and> 15 \<le> k \<and> k \<le> 90"
  using valid_duration_minutes [OF assms]
  by (auto simp: aptEnd_def aptDuration_def addMinutes_def)

lemma conflictsWith_overlaps:
  assumes "duration apt \<in> set validDurations" and "d < e"
  shows "conflictsWith d (Some e) apt = overlapsAppointment d e apt"
proof -
  from aptEnd_valid [OF assms(1)]
  obtain k where k: "aptEnd apt = Some (date apt + k * 60000)" "15 \<le> k" by blast
  then have "date apt < date apt + k * 60000" by simp
  with assms(2) k(1) show ?thesis
    by (simp add: conflictsWith_def overlapsAppointment_def threeClause_overlap)
qed

lemma overlaps_in_window:
  assumes "duration apt \<in> set validDurations" and "m \<le> 90"
    and "overlapsAppointment d (d + m * 60000) apt"
  shows "d - 24 * 60 * 60 * 1000 \<le> date apt \<and> date apt \<le> d + 24 * 60 * 60 * 1000"
proof -
  from aptEnd_valid [OF assms(1)]
  obtain k where k: "aptEnd apt = Some (date apt + k * 60000)" "k \<le> 90" by blast
  with assms(3) have "d < date apt + k * 60000" "date apt < d + m * 60000"
    by (simp_all add: overlapsAppointment_def overlap_def)
  with k(2) assms(2) show ?thesis by simp
qed

lemma window_filter:
  assumes "\<forall>apt \<in> set store. duration apt \<in> set validDurations"
    and "15 \<le> m" and "m \<le> 90"
  shows "filter (conflictsWith d (Some (d + m * 60000))) (findWindow store pid d) =
         filter (\<lambda>apt. providerId apt = pid \<and> status apt \<noteq> ''CANCELLED'' \<and>
                        overlapsAppointment d (d + m * 60000) apt) store"
proof -
  have lt: "d < d + m * 60000" using assms(2) by simp
  have "\<And>apt. apt \<in> set store \<Longrightarrow>
          ((providerId apt = pid \<and> status apt \<noteq> ''CANCELLED'' \<and>
            d - 24 * 60 * 60 * 1000 \<le> date apt \<and> date apt \<le> d + 24 * 60 * 60 * 1000) \<and>
           conflictsWith d (Some (d + m * 60000)) apt) =
          (providerId apt = pid \<and> status apt \<noteq> ''CANCELLED'' \<and>
           overlapsAppointment d (d + m * 60000) apt)"
    using assms(1) conflictsWith_overlaps [OF _ lt] overlaps_in_window [OF _ assms(3)]
    by blast
  then show ?thesis
    unfolding findWindow_def filter_filter
    by (intro filter_cong) (auto simp: conj_commute)
qed

section \<open>Slot generation\<close>

lemma slotLoop_sound:
  "s \<in> set (slotLoop existing dm rangeEnd current acc) \<Longrightarrow>
   s \<in> set acc \<or> slotOk existing dm s"
proof (induction existing dm rangeEnd current acc rule: slotLoop.induct)
  case (1 existing dm rangeEnd current acc)
  show ?case
  proof (cases "jsLt (Some current) rangeEnd")
    case False
    with "1.prems" show ?thesis
      by (simp add: slotLoop.simps [of existing dm rangeEnd current acc])
  next
    case True
    let ?acc' = "case addMinutes current dm of
             None \<Rightarrow> acc
           | Some se \<Rightarrow>
               if jsLe (Some se) rangeEnd then
                 (if \<not> list_ex (conflictsWith current (Some se)) existing
                  then acc @ [\<lparr>slotStart = current, slotEnd = se\<rparr>]
                  else acc)
               else acc"
    from True "1.prems" have "s \<in> set (slotLoop existing dm rangeEnd (current + 15 * 60000) ?acc')"
      by (simp add: slotLoop.simps [of existing dm rangeEnd current acc])
    with "1.IH" [OF True] have "s \<in> set ?acc' \<or> slotOk existing dm s" by blast
    moreover have "s \<in> set ?acc' \<Longrightarrow> s \<in> set acc \<or> slotOk existing dm s"
      by (auto simp: slotOk_def split: option.splits if_splits)
    ultimately show ?thesis by blast
  qed
qed

lemma rangeSlots_sound:
  "s \<in> set (rangeSlots existing dm acc r) \<Longrightarrow> s \<in> set acc \<or> slotOk existing dm s"
  by (auto simp: rangeSlots_def split: option.splits dest: slotLoop_sound)

lemma foldl_rangeSlots_sound:
  "s \<in> set (foldl (rangeSlots existing dm) acc rs) \<Longrightarrow> s \<in> set acc \<or> slotOk existing dm s"
proof (induction rs arbitrary: acc)
  case Nil
  then show ?case by simp
next
  case (Cons r rs)
  from Cons.prems have "s \<in> set (foldl (rangeSlots existing dm) (rangeSlots existing dm acc r) rs)"
    by simp
  from Cons.IH [OF this] show ?case
    using rangeSlots_sound by blast
qed

lemma generateSlots_sound:
  "s \<in> set (generateSlots existing dm rs) \<Longrightarrow> slotOk existing dm s"
  using foldl_rangeSlots_sound [of s existing dm "[]" rs] by (simp add: generateSlots_def)

text \<open>
  The loop on the single range 09:00 to 12:00 of a day, with no queried appointment and
  the duration \<open>30 minutes\<close>: 11 slots, starting every 15 minutes from 09:00 to 11:30.
\<close>

lemma generateSlots_nine_to_twelve:
  "generateSlots [] (parseInt (firstToken ''30 minutes''))
     [(Some (day + 9 * 3600000), Some (day + 12 * 3600000))] =
   map (\<lambda>k. \<lparr>slotStart = day + 9 * 3600000 + k * (15 * 60000),
              slotEnd = day + 9 * 3600000 + k * (15 * 60000) + 30 * 60000\<rparr>) [0 .. 10]"
  by (simp add: generateSlots_def rangeSlots_def parse_valid_durations slotLoop.simps
        jsLt_def jsLe_def addMinutes_def upto_rec1)

text \<open>The weekday call of the route throws, so the route never reaches the loop.\<close>

lemma weekday_lowercase: "weekdayName ''lowercase'' t = None"
  by (simp add: weekdayName_def)

lemma availability_is_error: "\<exists>e. availability store q selectedDate provider = Inl e"
  by (simp add: availability_def Let_def weekday_lowercase split: option.splits)



text \<open>
  C3 on the code: Scenario A, provider X free on Monday 2024-01-15 from 09:00 to 12:00,
  no appointment stored, duration \<open>30 minutes\<close>. The route replies 500 and returns no
  slot list.
\<close>

theorem scenario_a_replies_500:
  "availability [] (slotQuery None) (Some 1705276800000) (Some mondayNineToTwelve) =
   Inl (ServerError ''Failed to check availability'')"
  by code_simp

text \<open>
  The request passes the guard, the provider is found, and its object has the range
  under the key \<open>monday\<close>.
\<close>

theorem scenario_a_replies_500_witness:
  "truthy (q_providerId (slotQuery None)) \<and> truthy (q_date (slotQuery None)) \<and>
   mondayNineToTwelve ''monday'' = Some [(Some 1705309200000, Some 1705320000000)] \<and>
   availability [] (slotQuery None) (Some 1705276800000) (Some mondayNineToTwelve) =
   Inl (ServerError ''Failed to check availability'')"
proof -
  have guard: "truthy (q_providerId (slotQuery None)) \<and> truthy (q_date (slotQuery None)) \<and>
               mondayNineToTwelve ''monday'' = Some [(Some 1705309200000, Some 1705320000000)]"
    by code_simp
  from guard scenario_a_replies_500 show ?thesis by simp
qed

section \<open>Stored durations\<close>

text \<open>
  Every route that writes appointments keeps the stored durations among the five the
  schemas admit: the create and update routes validate the duration, the status and
  bulk routes do not touch it.
\<close>

lemma create_keeps_durations:
  assumes "\<forall>apt \<in> set (appointments w). duration apt \<in> set validDurations"
  shows "\<forall>apt \<in> set (appointments (snd (createAppointment w newId b))).
           duration apt \<in> set validDurations"
proof (cases "appointmentSchema b")
  case False
  with assms show ?thesis by (simp add: createAppointment_def)
next
  case True
  then obtain dur where dur: "b_duration b = Some dur" "dur \<in> set validDurations"
    by (auto simp: appointmentSchema_def requiredOneOf_def split: option.splits)
  then have "dur \<noteq> []" by (auto simp: validDurations_def)
  with dur have new: "duration (newRow newId b) \<in> set validDurations"
    by (simp add: newRow_def jsOr_def)
  have "appointments (snd (createAppointment w newId b)) = appointments w \<or>
        appointments (snd (createAppointment w newId b)) = appointments w @ [newRow newId b]"
    by (simp add: createAppointment_def Let_def)
  with assms new show ?thesis by auto
qed

lemma applyChanges_duration:
  assumes "updateAppointmentSchema b" and "duration apt \<in> set validDurations"
  shows "duration (applyChanges b apt) \<in> set validDurations"
  using assms
  by (auto simp: applyChanges_def updateAppointmentSchema_def optionalOneOf_def
           split: option.splits)

lemma update_rows:
  "appointments (snd (updateAppointment w ident b)) = appointments w \<or>
   (updateAppointmentSchema b \<and>
    appointments (snd (updateAppointment w ident b)) =
      map (\<lambda>apt. if id' apt = ident then applyChanges b apt else apt) (appointments w))"
  by (simp add: updateAppointment_def persistUpdate_def Let_def split: option.splits)

lemma update_keeps_durations:
  assumes "\<forall>apt \<in> set (appointments w). duration apt \<in> set validDurations"
  shows "\<forall>apt \<in> set (appointments (snd (updateAppointment w ident b))).
           duration apt \<in> set validDurations"
  using update_rows [of w ident b] assms applyChanges_duration [of b]
  by (elim disjE conjE) auto

lemma status_keeps_durations:
  assumes "\<forall>apt \<in> set (appointments w). duration apt \<in> set validDurations"
  shows "\<forall>apt \<in> set (appointments (snd (updateStatus w ident st))).
           duration apt \<in> set validDurations"
proof -
  have "appointments (snd (updateStatus w ident st)) = appointments w \<or>
        appointments (snd (updateStatus w ident st)) =
          map (\<lambda>apt. if id' apt = ident then apt\<lparr>status := jsOr st []\<rparr> else apt) (appointments w)"
    by (simp add: updateStatus_def Let_def split: option.splits)
  with assms show ?thesis by (elim disjE) auto
qed

lemma bulk_keeps_durations:
  assumes "\<forall>apt \<in> set (appointments w). duration apt \<in> set validDurations"
  shows "\<forall>apt \<in> set (appointments (snd (bulk w b))). duration apt \<in> set validDurations"
proof -
  have "appointments (snd (bulk w b)) = appointments w \<or>
        (\<exists>ids. appointments (snd (bulk w b)) = filter (\<lambda>apt. id' apt \<notin> set ids) (appointments w)) \<or>
        (\<exists>ids st. appointments (snd (bulk w b)) =
           map (\<lambda>apt. if id' apt \<in> set ids then apt\<lparr>status := st\<rparr> else apt) (appointments w))"
    by (simp add: bulk_def Let_def deleteMany_def updateMany_def split: option.splits) blast
  with assms show ?thesis by (elim disjE exE) auto
qed

section \<open>Booking\<close>

text \<open>
  C4. A valid booking request whose interval overlaps a stored appointment of the same
  provider that is not cancelled is refused with the 409 reply; the payload lists
  exactly the provider's overlapping appointments that are not cancelled, and the store
  is unchanged. Stored durations are those the schemas admit, which every writing
  route preserves.
\<close>

theorem book_conflict:
  assumes valid: "appointmentSchema b"
    and stored: "\<forall>apt \<in> set (appointments w). duration apt \<in> set validDurations"
    and provider: "b_providerId b = Some pid"
    and start: "b_date b = IsoDate d"
    and dur: "b_duration b = Some dur"
    and minutes: "parseInt (firstToken dur) = Some m"
    and overlapping:
      "\<exists>apt \<in> set (appointments w).
         providerId apt = pid \<and> status apt \<noteq> ''CANCELLED'' \<and>
         overlapsAppointment d (d + m * 60000) apt"
  shows "createAppointment w newId b =
           (Inl (Conflict ''Time slot conflict detected''
                  (Some (filter (\<lambda>apt. providerId apt = pid \<and> status apt \<noteq> ''CANCELLED'' \<and>
                                       overlapsAppointment d (d + m * 60000) apt)
                           (appointments w)))), w)"
proof -
  from valid dur have "dur \<in> set validDurations"
    by (simp add: appointmentSchema_def requiredOneOf_def)
  from valid_duration_minutes [OF this] minutes have m: "15 \<le> m" "m \<le> 90" by auto
  from valid provider have pid: "jsOr (b_providerId b) [] = pid"
    by (auto simp: appointmentSchema_def requiredString_def jsOr_def)
  from valid dur have durs: "jsOr (b_duration b) [] = dur"
    by (auto simp: appointmentSchema_def requiredOneOf_def validDurations_def jsOr_def)
  let ?found = "filter (\<lambda>apt. providerId apt = pid \<and> status apt \<noteq> ''CANCELLED'' \<and>
                              overlapsAppointment d (d + m * 60000) apt) (appointments w)"
  have filt: "filter (conflictsWith d (Some (d + m * 60000))) (findWindow (appointments w) pid d) = ?found"
    by (rule window_filter [OF stored m])
  from overlapping have "?found \<noteq> []"
    by (auto simp: filter_empty_conv)
  with filt have ex: "list_ex (conflictsWith d (Some (d + m * 60000))) (findWindow (appointments w) pid d)"
    by (metis filter_empty_conv list_ex_iff)
  show ?thesis
    using valid ex filt
    by (simp add: createAppointment_def Let_def bodyDate_def start pid durs minutes addMinutes_def)
qed

text \<open>
  Scenario B: a confirmed appointment 10:00 to 10:30 of provider X, a request for 10:15
  to 10:45.
\<close>

theorem book_conflict_witness:
  "createAppointment \<lparr>appointments = [confirmedAt10], effects = []\<rparr> ''a2'' (slotBooking 1705313700000) =
     (Inl (Conflict ''Time slot conflict detected'' (Some [confirmedAt10])),
      \<lparr>appointments = [confirmedAt10], effects = []\<rparr>)"
proof -
  let ?w = "\<lparr>appointments = [confirmedAt10], effects = []\<rparr>"
  let ?b = "slotBooking 1705313700000"
  have h1: "appointmentSchema ?b" by code_simp
  have h2: "\<forall>apt \<in> set (appointments ?w). duration apt \<in> set validDurations" by code_simp
  have h3: "b_providerId ?b = Some ''X''" by code_simp
  have h4: "b_date ?b = IsoDate 1705313700000" by code_simp
  have h5: "b_duration ?b = Some ''30 minutes''" by code_simp
  have h6: "parseInt (firstToken ''30 minutes'') = Some 30" by code_simp
  have h7: "\<exists>apt \<in> set (appointments ?w).
         providerId apt = ''X'' \<and> status apt \<noteq> ''CANCELLED'' \<and>
         overlapsAppointment 1705313700000 (1705313700000 + 30 * 60000) apt"
    by code_simp
  have h8: "filter (\<lambda>apt. providerId apt = ''X'' \<and> status apt \<noteq> ''CANCELLED'' \<and>
               overlapsAppointment 1705313700000 (1705313700000 + 30 * 60000) apt)
             (appointments ?w) = [confirmedAt10]"
    by code_simp
  from book_conflict [OF h1 h2 h3 h4 h5 h6 h7, of "''a2''"] h8
  show ?thesis by simp
qed

text \<open>
  C5. With stored and requested durations among those the schemas admit, every stored
  appointment that overlaps the requested interval starts within 24 hours of the
  requested start, and the conflicts found in the windowed query are those found among
  all the provider's appointments that are not cancelled.
\<close>

theorem window_complete:
  assumes stored: "\<forall>apt \<in> set store. duration apt \<in> set validDurations"
    and dur: "dur \<in> set validDurations"
    and minutes: "parseInt (firstToken dur) = Some m"
  shows "(\<forall>apt \<in> set store.
            overlapsAppointment d (d + m * 60000) apt \<longrightarrow>
            d - 24 * 60 * 60 * 1000 \<le> date apt \<and> date apt \<le> d + 24 * 60 * 60 * 1000) \<and>
         filter (conflictsWith d (Some (d + m * 60000))) (findWindow store pid d) =
         filter (conflictsWith d (Some (d + m * 60000)))
           (filter (\<lambda>apt. providerId apt = pid \<and> status apt \<noteq> ''CANCELLED'') store)"
proof -
  from valid_duration_minutes [OF dur] minutes have m: "15 \<le> m" "m \<le> 90" by auto
  then have lt: "d < d + m * 60000" by simp
  have inside: "\<forall>apt \<in> set store.
            overlapsAppointment d (d + m * 60000) apt \<longrightarrow>
            d - 24 * 60 * 60 * 1000 \<le> date apt \<and> date apt \<le> d + 24 * 60 * 60 * 1000"
    using stored overlaps_in_window [OF _ m(2)] by blast
  have "filter (conflictsWith d (Some (d + m * 60000)))
           (filter (\<lambda>apt. providerId apt = pid \<and> status apt \<noteq> ''CANCELLED'') store) =
        filter (\<lambda>apt. providerId apt = pid \<and> status apt \<noteq> ''CANCELLED'' \<and>
                        overlapsAppointment d (d + m * 60000) apt) store"
    unfolding filter_filter
    using stored conflictsWith_overlaps [OF _ lt]
    by (intro filter_cong) auto
  with window_filter [OF stored m, of d pid] inside show ?thesis by simp
qed

theorem window_complete_witness:
  "filter (conflictsWith 1705313700000 (Some (1705313700000 + 30 * 60000)))
     (findWindow [confirmedAt10, twoDaysLater] ''X'' 1705313700000) = [confirmedAt10] \<and>
   filter (conflictsWith 1705313700000 (Some (1705313700000 + 30 * 60000)))
     (filter (\<lambda>apt. providerId apt = ''X'' \<and> status apt \<noteq> ''CANCELLED'')
        [confirmedAt10, twoDaysLater]) = [confirmedAt10]"
proof -
  have h1: "\<forall>apt \<in> set [confirmedAt10, twoDaysLater]. duration apt \<in> set validDurations"
    by code_simp
  have h2: "''30 minutes'' \<in> set validDurations" by code_simp
  have h3: "parseInt (firstToken ''30 minutes'') = Some 30" by code_simp
  have h4: "filter (conflictsWith 1705313700000 (Some (1705313700000 + 30 * 60000)))
     (findWindow [confirmedAt10, twoDaysLater] ''X'' 1705313700000) = [confirmedAt10]"
    by code_simp
  from window_complete [OF h1 h2 h3, of 1705313700000 "''X''"] h4
  show ?thesis by simp
qed

section \<open>The conflict report\<close>

text \<open>
  C6 on the code: three confirmed appointments of provider X, 10:00 for 90 minutes,
  10:15 for 15 minutes and 10:45 for 30 minutes. The report lists the first pair only,
  although the third appointment overlaps the first.
\<close>

theorem report_misses_pair:
  "conflictsRoute [longVisit, shortVisit, lateVisit] (Some ''X'') None =
     Inr \<lparr>r_totalAppointments = 3,
          r_conflicts = [\<lparr>appointment1 = longVisit, appointment2 = shortVisit, overlapMinutes = 75\<rparr>],
          r_conflictCount = 1\<rparr> \<and>
   overlapsAppointment (date lateVisit) (date lateVisit + 30 * 60000) longVisit \<and>
   conflictsWith (date lateVisit) (aptEnd lateVisit) longVisit"
  by code_simp

section \<open>Status updates\<close>

lemma updateStatus_found:
  assumes "statusUpdateSchema (Some st)"
    and "find (\<lambda>apt. id' apt = ident) (appointments w) = Some row"
  shows "updateStatus w ident (Some st) =
           (Inr (row\<lparr>status := st\<rparr>),
            w\<lparr>appointments := map (\<lambda>apt. if id' apt = ident then apt\<lparr>status := st\<rparr> else apt)
                                   (appointments w),
              effects := effects w @
                [AuditLog ''STATUS_UPDATE'' ''appointment'' (Some (id' row)),
                 Emit (Some (''provider-'' @ providerId row)) ''appointment-status-updated'']\<rparr>)"
proof -
  from assms(1) have "st \<noteq> []"
    by (auto simp: statusUpdateSchema_def requiredOneOf_def validStatuses_def)
  then have "jsOr (Some st) [] = st" by (simp add: jsOr_def)
  with assms show ?thesis
    by (simp add: updateStatus_def Let_def)
qed

lemma status_rows:
  assumes "statusUpdateSchema (Some st)"
    and "find (\<lambda>apt. id' apt = ident) (appointments w) = Some row"
  shows "appointments (snd (updateStatus w ident (Some st))) =
           map (\<lambda>apt. if id' apt = ident then apt\<lparr>status := st\<rparr> else apt) (appointments w)"
  by (simp add: updateStatus_found [OF assms])

lemma status_row_after:
  assumes "apt \<in> set (map (\<lambda>x. if id' x = ident then x\<lparr>status := st\<rparr> else x) rows)"
    and "id' apt = ident"
  shows "status apt = st"
proof -
  from assms(1) obtain x where x: "x \<in> set rows"
      "apt = (if id' x = ident then x\<lparr>status := st\<rparr> else x)"
    unfolding set_map by blast
  show ?thesis
  proof (cases "id' x = ident")
    case True
    with x(2) show ?thesis by simp
  next
    case False
    with x(2) assms(2) show ?thesis by simp
  qed
qed

lemma status_ids_kept:
  "map id' (map (\<lambda>x. if id' x = ident then x\<lparr>status := st\<rparr> else x) rows) = map id' rows"
  by (induction rows) simp_all

text \<open>
  C7 (as amended). The status route has no transition guard: for an appointment in any
  status, CANCELLED, COMPLETED and NO_SHOW included, an update to any of the five valid
  statuses is accepted, the reply carries the row with the new status, every stored row
  with that identifier has the new status, and no row is added or removed.
\<close>

theorem status_overwrite:
  assumes "statusUpdateSchema (Some st)"
    and "find (\<lambda>apt. id' apt = ident) (appointments w) = Some row"
  shows "fst (updateStatus w ident (Some st)) = Inr (row\<lparr>status := st\<rparr>) \<and>
         (\<forall>apt \<in> set (appointments (snd (updateStatus w ident (Some st)))).
            id' apt = ident \<longrightarrow> status apt = st) \<and>
         map id' (appointments (snd (updateStatus w ident (Some st)))) = map id' (appointments w)"
proof -
  have a: "fst (updateStatus w ident (Some st)) = Inr (row\<lparr>status := st\<rparr>)"
    by (simp add: updateStatus_found [OF assms])
  have b: "\<forall>apt \<in> set (appointments (snd (updateStatus w ident (Some st)))).
            id' apt = ident \<longrightarrow> status apt = st"
    unfolding status_rows [OF assms] using status_row_after by blast
  have c: "map id' (appointments (snd (updateStatus w ident (Some st)))) = map id' (appointments w)"
    unfolding status_rows [OF assms] by (rule status_ids_kept)
  from a b c show ?thesis by blast
qed

theorem status_overwrite_witness:
  "statusUpdateSchema (Some ''CONFIRMED'') \<and>
   status cancelledApt = ''CANCELLED'' \<and>
   fst (updateStatus \<lparr>appointments = [cancelledApt], effects = []\<rparr> ''c1'' (Some ''CONFIRMED'')) =
     Inr (cancelledApt\<lparr>status := ''CONFIRMED''\<rparr>)"
proof -
  have h1: "statusUpdateSchema (Some ''CONFIRMED'')" by code_simp
  have h2: "find (\<lambda>apt. id' apt = ''c1'') (appointments \<lparr>appointments = [cancelledApt], effects = []\<rparr>) =
              Some cancelledApt"
    by code_simp
  have h3: "status cancelledApt = ''CANCELLED''" by code_simp
  from status_overwrite [OF h1 h2] h1 h3 show ?thesis by simp
qed

text \<open>
  C7 as stated fails: a CANCELLED appointment is moved to CONFIRMED with a success
  reply.
\<close>

theorem cancelled_to_confirmed_counterexample:
  "updateStatus \<lparr>appointments = [cancelledApt], effects = []\<rparr> ''c1'' (Some ''CONFIRMED'') =
     (Inr (cancelledApt\<lparr>status := ''CONFIRMED''\<rparr>),
      \<lparr>appointments = [cancelledApt\<lparr>status := ''CONFIRMED''\<rparr>],
       effects = [AuditLog ''STATUS_UPDATE'' ''appointment'' (Some ''c1''),
                  Emit (Some ''provider-X'') ''appointment-status-updated'']\<rparr>)"
  by code_simp

section \<open>Bulk operations\<close>

lemma count_matching:
  assumes "distinct (map id' store)"
  shows "length (filter (\<lambda>apt. id' apt \<in> set ids) store) = card (set ids \<inter> id' ` set store)"
proof -
  have "length (filter (\<lambda>apt. id' apt \<in> set ids) store) =
        length (filter (\<lambda>i. i \<in> set ids) (map id' store))"
    by (simp add: filter_map comp_def)
  also have "\<dots> = card (set (filter (\<lambda>i. i \<in> set ids) (map id' store)))"
    using assms by (simp only: distinct_card [OF distinct_filter])
  also have "set (filter (\<lambda>i. i \<in> set ids) (map id' store)) = set ids \<inter> id' ` set store"
    by auto
  finally show ?thesis .
qed

lemma bulk_delete:
  assumes "bulk_appointmentIds b = Some ids" and "bulk_action b = Some ''delete''"
  shows "fst (bulk w b) = Inr (length (filter (\<lambda>apt. id' apt \<in> set ids) (appointments w)))"
  using assms by (simp add: bulk_def Let_def deleteMany_def truthy_def)

lemma bulk_update_status:
  assumes "bulk_appointmentIds b = Some ids" and "bulk_action b = Some ''update-status''"
    and "truthy (bulk_status b)"
  shows "fst (bulk w b) = Inr (length (filter (\<lambda>apt. id' apt \<in> set ids) (appointments w)))"
  using assms by (simp add: bulk_def Let_def updateMany_def truthy_def)

lemma bulk_count_cases:
  assumes "fst (bulk w b) = Inr n"
  shows "\<exists>ids. bulk_appointmentIds b = Some ids \<and>
           (bulk_action b = Some ''delete'' \<or>
            (bulk_action b = Some ''update-status'' \<and> truthy (bulk_status b)))"
proof (cases "bulk_appointmentIds b")
  case None
  with assms show ?thesis by (simp add: bulk_def)
next
  case (Some ids)
  show ?thesis
  proof (cases "bulk_action b = Some ''delete''")
    case True
    with Some show ?thesis by simp
  next
    case notDelete: False
    show ?thesis
    proof (cases "bulk_action b = Some ''update-status'' \<and> truthy (bulk_status b)")
      case True
      with Some show ?thesis by simp
    next
      case False
      with assms Some notDelete have False
        by (simp add: bulk_def Let_def split: if_splits)
      then show ?thesis ..
    qed
  qed
qed

text \<open>
  C8. With identifiers unique among the stored rows, a bulk delete, and a bulk
  update-status that carries one of the five status names, reply with \<open>affectedCount\<close>
  equal to the number of identifiers of the input list that have a stored row; and
  whenever the route replies with a count, it is that number.
\<close>

theorem bulk_affected_count:
  assumes keys: "distinct (map id' (appointments w))"
    and ids: "bulk_appointmentIds b = Some ids"
  shows "(bulk_action b = Some ''delete'' \<or>
          (bulk_action b = Some ''update-status'' \<and>
           (\<exists>st \<in> set validStatuses. bulk_status b = Some st)) \<longrightarrow>
          fst (bulk w b) = Inr (card (set ids \<inter> id' ` set (appointments w)))) \<and>
         (\<forall>n. fst (bulk w b) = Inr n \<longrightarrow> n = card (set ids \<inter> id' ` set (appointments w)))"
proof -
  note count = count_matching [OF keys, of ids]
  have named: "(\<exists>st \<in> set validStatuses. bulk_status b = Some st) \<Longrightarrow> truthy (bulk_status b)"
    by (auto simp: validStatuses_def truthy_def)
  have ok: "bulk_action b = Some ''delete'' \<or>
          (bulk_action b = Some ''update-status'' \<and> truthy (bulk_status b)) \<Longrightarrow>
          fst (bulk w b) = Inr (card (set ids \<inter> id' ` set (appointments w)))"
    using bulk_delete [OF ids] bulk_update_status [OF ids] count by metis
  have "\<And>n. fst (bulk w b) = Inr n \<Longrightarrow> n = card (set ids \<inter> id' ` set (appointments w))"
  proof -
    fix n assume n: "fst (bulk w b) = Inr n"
    from bulk_count_cases [OF n] ids
    have "bulk_action b = Some ''delete'' \<or>
            (bulk_action b = Some ''update-status'' \<and> truthy (bulk_status b))"
      by simp
    from ok [OF this] n show "n = card (set ids \<inter> id' ` set (appointments w))" by simp
  qed
  with ok named show ?thesis by blast
qed

text \<open>
  Scenario D: four stored rows, a bulk delete of five identifiers of which two have no
  row; the count is 3, the number of named identifiers with a row, and the one row not
  named remains.
\<close>

theorem bulk_affected_count_witness:
  "fst (bulk \<lparr>appointments = storedRows, effects = []\<rparr> bulkDelete) = Inr 3 \<and>
   card (set [''r1'', ''gone1'', ''r3'', ''gone2'', ''r4''] \<inter> id' ` set storedRows) = 3 \<and>
   map id' (appointments (snd (bulk \<lparr>appointments = storedRows, effects = []\<rparr> bulkDelete))) = [''r2'']"
proof -
  let ?w = "\<lparr>appointments = storedRows, effects = []\<rparr>"
  let ?ids = "[''r1'', ''gone1'', ''r3'', ''gone2'', ''r4'']"
  have h1: "distinct (map id' (appointments ?w))" by code_simp
  have h2: "bulk_appointmentIds bulkDelete = Some ?ids" by code_simp
  have h3: "fst (bulk ?w bulkDelete) = Inr 3" by code_simp
  have h4: "map id' (appointments (snd (bulk ?w bulkDelete))) = [''r2'']" by code_simp
  from bulk_affected_count [OF h1 h2] h3
  have "3 = card (set ?ids \<inter> id' ` set (appointments ?w))" by blast
  with h3 h4 show ?thesis by simp
qed

section \<open>Hour buckets of a location\<close>

lemma countAt_bumpHour:
  "countAt (bumpHour k m) h = countAt m h + (if k = h then 1 else 0)"
  by (simp add: countAt_def bumpHour_def)

lemma countAt_bump_list:
  "countAt (foldl (\<lambda>m h. bumpHour h m) m hs) h = countAt m h + length (filter (\<lambda>k. k = h) hs)"
  by (induction hs arbitrary: m) (simp_all add: countAt_bumpHour)

lemma length_filter_upto:
  "length (filter (\<lambda>k. k = h) [a .. b]) = (if a \<le> h \<and> h \<le> b then 1 else 0)"
proof -
  have "length (filter (\<lambda>k. k = h) [a .. b]) = card ({k. k = h} \<inter> set [a .. b])"
    by (rule distinct_length_filter) simp
  also have "{k. k = h} \<inter> set [a .. b] = (if a \<le> h \<and> h \<le> b then {h} else {})"
    by auto
  finally show ?thesis by simp
qed

lemma countAt_countAppointment:
  "countAt (countAppointment m apt) h = countAt m h + (if coversHour h apt then 1 else 0)"
  by (auto simp: countAppointment_def coversHour_def countAt_bump_list length_filter_upto
           split: option.splits)

lemma countAt_foldl:
  "countAt (foldl countAppointment m apts) h = countAt m h + length (filter (coversHour h) apts)"
  by (induction apts arbitrary: m) (simp_all add: countAt_countAppointment)

lemma countAt_hourlyCountOf:
  "countAt (hourlyCountOf apts) h = length (filter (coversHour h) apts)"
  unfolding hourlyCountOf_def countAt_foldl by (simp add: countAt_def)

lemma ceil_hour_small:
  fixes h H M d :: int
  assumes "0 \<le> M" and "M < 60"
  shows "(H \<le> h \<and> h < - ((- (M + d)) div 60) + H) =
         (H * 60 + M < (h + 1) * 60 \<and> h * 60 < H * 60 + M + d)"
proof -
  define q where "q = (- (M + d)) div 60"
  define r where "r = (- (M + d)) mod 60"
  have r: "0 \<le> r" "r < 60" unfolding r_def by simp_all
  have eq: "- (M + d) = q * 60 + r" unfolding q_def r_def by simp
  have a: "(H \<le> h) = (H * 60 + M < (h + 1) * 60)"
    using assms by auto
  have b: "(h < - q + H) = (h * 60 < H * 60 + M + d)"
    using r eq by auto
  show ?thesis
    unfolding q_def [symmetric] a b ..
qed

lemma ceil_hour:
  fixes h H M d :: int
  assumes "0 \<le> M" and "M < 60"
  shows "(H \<le> h \<and> h < - ((- (M + d)) div 60) + H) =
         (H * 3600000 + M * 60000 < (h + 1) * 3600000 \<and>
          h * 3600000 < H * 3600000 + M * 60000 + d * 60000)"
proof -
  have "(H * 3600000 + M * 60000 < (h + 1) * 3600000) = (H * 60 + M < (h + 1) * 60)"
    by linarith
  moreover have "(h * 3600000 < H * 3600000 + M * 60000 + d * 60000) = (h * 60 < H * 60 + M + d)"
    by linarith
  ultimately show ?thesis using ceil_hour_small [OF assms] by simp
qed

lemma hour_bounds:
  fixes D T :: int
  assumes "D * 1440 \<le> T" and "T < D * 1440 + 1440"
  shows "0 \<le> T div 60 - D * 24 \<and> T div 60 - D * 24 < 24"
proof -
  define q where "q = T div 60"
  define r where "r = T mod 60"
  have r: "0 \<le> r" "r < 60" unfolding r_def by simp_all
  have eq: "T = q * 60 + r" unfolding q_def r_def by simp
  show ?thesis
    unfolding q_def [symmetric] using assms r eq by linarith
qed

lemma day_parts:
  fixes t sd :: int
  assumes lo: "startOfDay sd \<le> t" and hi: "t \<le> endOfDay sd" and whole: "t mod 60000 = 0"
  shows "\<exists>H M. t = startOfDay sd + H * 3600000 + M * 60000 \<and>
               0 \<le> M \<and> M < 60 \<and> getHours t = H \<and> getMinutes t = M"
proof -
  define D where "D = sd div 86400000"
  have sd0: "startOfDay sd = D * 86400000"
    unfolding startOfDay_def D_def by (simp add: minus_mod_eq_div_mult)
  from whole obtain T where T: "t = T * 60000"
    by (metis mod_eq_0_iff_dvd dvd_def mult.commute)
  from lo hi have range: "D * 1440 \<le> T" "T < D * 1440 + 1440"
    unfolding sd0 endOfDay_def T by linarith+
  define H where "H = T div 60 - D * 24"
  define M where "M = T mod 60"
  have M: "0 \<le> M" "M < 60" unfolding M_def by simp_all
  have Tq: "T = (T div 60) * 60 + M" unfolding M_def by simp
  have H: "0 \<le> H" "H < 24" using hour_bounds [OF range] unfolding H_def by simp_all
  have t: "t = startOfDay sd + H * 3600000 + M * 60000"
  proof -
    have "t = ((T div 60) * 60 + M) * 60000" using T Tq by simp
    also have "\<dots> = startOfDay sd + H * 3600000 + M * 60000"
      unfolding sd0 H_def by (simp add: algebra_simps)
    finally show ?thesis .
  qed
  have d60: "t div 60000 = T" unfolding T by simp
  have "t div 3600000 = (t div 60000) div 60"
    by (simp add: zdiv_zmult2_eq [symmetric])
  then have d3600: "t div 3600000 = H + D * 24" unfolding d60 H_def by simp
  have gh: "getHours t = H"
    unfolding getHours_def d3600 using H by simp
  have gm: "getMinutes t = M"
    unfolding getMinutes_def d60 M_def by simp
  from t M gh gm show ?thesis by blast
qed

lemma coversHour_overlap:
  assumes lo: "startOfDay sd \<le> date apt" and hi: "date apt \<le> endOfDay sd"
    and whole: "date apt mod 60000 = 0"
  shows "coversHour h apt =
         (case aptEnd apt of
            None \<Rightarrow> False
          | Some ae \<Rightarrow> overlap (date apt) ae (startOfDay sd + h * 3600000)
                        (startOfDay sd + (h + 1) * 3600000))"
proof (cases "aptDuration apt")
  case None
  then show ?thesis by (simp add: coversHour_def endHour_def aptEnd_def addMinutes_def)
next
  case (Some d)
  from day_parts [OF lo hi whole] obtain H M where
    parts: "date apt = startOfDay sd + H * 3600000 + M * 60000" "0 \<le> M" "M < 60"
      "getHours (date apt) = H" "getMinutes (date apt) = M"
    by blast
  have cov: "coversHour h apt = (H \<le> h \<and> h < - ((- (M + d)) div 60) + H)"
    by (simp add: coversHour_def endHour_def Some parts(4,5))
  have ov: "(case aptEnd apt of
            None \<Rightarrow> False
          | Some ae \<Rightarrow> overlap (date apt) ae (startOfDay sd + h * 3600000)
                        (startOfDay sd + (h + 1) * 3600000)) =
        (H * 3600000 + M * 60000 < (h + 1) * 3600000 \<and>
          h * 3600000 < H * 3600000 + M * 60000 + d * 60000)"
    unfolding aptEnd_def Some addMinutes_def overlap_def option.case parts(1) by auto
  show ?thesis unfolding cov ov by (rule ceil_hour [OF parts(2,3)])
qed

lemma occupied_count:
  assumes whole: "\<forall>apt \<in> set store. date apt mod 60000 = 0"
  shows "countAt (hourlyCountOf (findAtLocation store ident sd)) h = specOccupied store ident sd h"
proof -
  let ?P = "\<lambda>apt. locationId apt = ident \<and>
                    startOfDay sd \<le> date apt \<and> date apt \<le> endOfDay sd \<and>
                    status apt \<noteq> ''CANCELLED''"
  have "countAt (hourlyCountOf (findAtLocation store ident sd)) h =
        length (filter (coversHour h) (sort_key date (filter ?P store)))"
    by (simp add: countAt_hourlyCountOf findAtLocation_def)
  also have "\<dots> = length (filter (coversHour h) (filter ?P store))"
    by (simp add: filter_sort)
  also have "\<dots> = length (filter (\<lambda>apt. ?P apt \<and> coversHour h apt) store)"
    by (simp only: filter_filter)
  also have "filter (\<lambda>apt. ?P apt \<and> coversHour h apt) store =
        filter (\<lambda>apt. locationId apt = ident \<and>
                           status apt \<noteq> ''CANCELLED'' \<and>
                           startOfDay sd \<le> date apt \<and> date apt \<le> endOfDay sd \<and>
                           (case aptEnd apt of
                              None \<Rightarrow> False
                            | Some ae \<Rightarrow>
                                overlap (date apt) ae
                                  (startOfDay sd + h * 3600000)
                                  (startOfDay sd + (h + 1) * 3600000))) store"
    using whole coversHour_overlap [of sd _ h]
    by (intro filter_cong) auto
  finally show ?thesis by (simp add: specOccupied_def)
qed

lemma hourEntryOf_fields:
  "hourLabel (hourEntryOf loc m h) = h"
  "currentAppointments (hourEntryOf loc m h) = countAt m h"
  "availableSlots (hourEntryOf loc m h) = max 0 (capacity loc - int (countAt m h))"
  "isAvailable (hourEntryOf loc m h) = (int (countAt m h) < capacity loc)"
  by (simp_all add: hourEntryOf_def countAt_def Let_def)

lemma route_entries:
  assumes "locationAvailabilityRoute store (Some l) dateParam (Some sd) = Inr r"
  shows "r_availabilityByHour r =
           map (hourEntryOf l (hourlyCountOf (findAtLocation store (loc_id l) sd))) [8 .. 18]"
  using assms by (auto simp: locationAvailabilityRoute_def Let_def split: if_splits)

text \<open>
  C9 (as amended). When the stored appointments start on whole minutes, every reported
  hour bucket (hours 8 to 18) has as its count the number of appointments of the
  location that are not cancelled, start on the selected day and whose interval meets
  that hour; the free places are \<open>max 0 (capacity - count)\<close>; the bucket is available
  exactly when the count is below the capacity; and a count above the capacity is
  reported as it is, with no free place and the bucket not available.
\<close>

theorem hour_buckets:
  assumes whole: "\<forall>apt \<in> set store. date apt mod 60000 = 0"
    and reply: "locationAvailabilityRoute store (Some l) dateParam (Some sd) = Inr r"
    and entry: "e \<in> set (r_availabilityByHour r)"
  shows "8 \<le> hourLabel e \<and> hourLabel e \<le> 18 \<and>
         currentAppointments e = specOccupied store (loc_id l) sd (hourLabel e) \<and>
         availableSlots e = max 0 (capacity l - int (currentAppointments e)) \<and>
         isAvailable e = (int (currentAppointments e) < capacity l) \<and>
         (capacity l < int (currentAppointments e) \<longrightarrow> availableSlots e = 0 \<and> \<not> isAvailable e)"
proof -
  let ?m = "hourlyCountOf (findAtLocation store (loc_id l) sd)"
  from entry obtain h where h: "h \<in> set [8 .. 18]" "e = hourEntryOf l ?m h"
    unfolding route_entries [OF reply] by auto
  have occ: "currentAppointments e = specOccupied store (loc_id l) sd (hourLabel e)"
    unfolding h(2) hourEntryOf_fields by (rule occupied_count [OF whole])
  have rest: "hourLabel e = h"
      "availableSlots e = max 0 (capacity l - int (currentAppointments e))"
      "isAvailable e = (int (currentAppointments e) < capacity l)"
    unfolding h(2) hourEntryOf_fields by simp_all
  from h(1) have "h \<in> {8 .. 18}" by (simp only: set_upto)
  then have "8 \<le> h" "h \<le> 18" by simp_all
  with occ rest show ?thesis by auto
qed

text \<open>Scenario C: capacity 2 and three appointments in the 14:00 hour.\<close>

theorem hour_buckets_witness:
  "locationAvailabilityRoute threeAt14 (Some roomTwo) (Some ''2024-01-15'') (Some 1705276800000) =
     Inr \<lparr>r_capacity = 2, r_locationAppointments = 3,
          r_availabilityByHour =
            [hourRow 8 0 2 True, hourRow 9 0 2 True, hourRow 10 0 2 True, hourRow 11 0 2 True,
             hourRow 12 0 2 True, hourRow 13 0 2 True, hourRow 14 3 0 False, hourRow 15 1 1 True,
             hourRow 16 0 2 True, hourRow 17 0 2 True, hourRow 18 0 2 True],
          r_isFullyBooked = False\<rparr> \<and>
   specOccupied threeAt14 ''L1'' 1705276800000 14 = 3 \<and>
   availableSlots (hourRow 14 3 0 False) = 0 \<and> \<not> isAvailable (hourRow 14 3 0 False)"
proof -
  let ?r = "\<lparr>r_capacity = 2, r_locationAppointments = 3,
          r_availabilityByHour =
            [hourRow 8 0 2 True, hourRow 9 0 2 True, hourRow 10 0 2 True, hourRow 11 0 2 True,
             hourRow 12 0 2 True, hourRow 13 0 2 True, hourRow 14 3 0 False, hourRow 15 1 1 True,
             hourRow 16 0 2 True, hourRow 17 0 2 True, hourRow 18 0 2 True],
          r_isFullyBooked = False\<rparr>"
  have h1: "\<forall>apt \<in> set threeAt14. date apt mod 60000 = 0" by code_simp
  have h2: "locationAvailabilityRoute threeAt14 (Some roomTwo) (Some ''2024-01-15'')
              (Some 1705276800000) = Inr ?r"
    by code_simp
  have h3: "hourRow 14 3 0 False \<in> set (r_availabilityByHour ?r)" by simp
  have f: "hourLabel (hourRow 14 3 0 False) = 14" "currentAppointments (hourRow 14 3 0 False) = 3"
    by (simp_all add: hourRow_def)
  have g: "loc_id roomTwo = ''L1''" "capacity roomTwo = 2" by (simp_all add: roomTwo_def)
  from hour_buckets [OF h1 h2 h3] h2 show ?thesis
    unfolding f g by simp
qed

text \<open>
  C9 as stated fails for a start between two minutes: the appointment 14:45:30 to
  15:00:30 meets the 15:00 hour, which the route reports with no appointment.
\<close>

theorem hour_buckets_counterexample:
  "locationAvailabilityRoute [halfMinuteStart] (Some roomTwo) (Some ''2024-01-15'') (Some 1705276800000) =
     Inr \<lparr>r_capacity = 2, r_locationAppointments = 1,
          r_availabilityByHour =
            [hourRow 8 0 2 True, hourRow 9 0 2 True, hourRow 10 0 2 True, hourRow 11 0 2 True,
             hourRow 12 0 2 True, hourRow 13 0 2 True, hourRow 14 1 1 True, hourRow 15 0 2 True,
             hourRow 16 0 2 True, hourRow 17 0 2 True, hourRow 18 0 2 True],
          r_isFullyBooked = False\<rparr> \<and>
   specOccupied [halfMinuteStart] ''L1'' 1705276800000 15 = 1 \<and>
   currentAppointments (hourRow 15 0 2 True) \<noteq> specOccupied [halfMinuteStart] ''L1'' 1705276800000 15"
  by code_simp

section \<open>Updates\<close>


lemma update_unchecked:
  assumes "updateAppointmentSchema b"
    and "find (\<lambda>apt. id' apt = ident) (appointments w) = Some existing"
    and "b_date b = NoDate" and "b_duration b = None"
  shows "updateAppointment w ident b = persistUpdate w ident b existing"
  using assms by (simp add: updateAppointment_def truthy_def)






end
